theory Spec2Isabelle
  imports Main
begin

section \<open>Values, documents and exceptions\<close>

text \<open>
  Request bodies, query filters and stored documents are Python dictionaries from field
  names to JSON-like values. A number written with a fraction or an exponent is kept as
  its decimal mantissa and exponent.
\<close>

datatype json =
    JNull
  | JBool bool
  | JInt int
  | JFloat int int
  | JStr string
  | JList "json list"
  | JObj "(string \<times> json) list"

type_synonym document = "string \<rightharpoonup> json"

text \<open>
  A query filter is a dictionary with few keys, written in the order its entries are set.
\<close>

type_synonym query = "(string \<times> json) list"

text \<open>
  An exception raised by the store adapter is represented by its message, the value of
  \<^verbatim>\<open>str(e)\<close>, which is all the handlers read of it. A computation that may
  raise returns \<open>Inl\<close> of the exception; \<open>try_except\<close> is Python's
  \<^verbatim>\<open>try: ... except Exception as e: ...\<close>.
\<close>

type_synonym exn = string

definition try_except :: "'e + 'a \<Rightarrow> ('e \<Rightarrow> 'f + 'a) \<Rightarrow> 'f + 'a" where
  "try_except body handler = (case body of Inl e \<Rightarrow> handler e | Inr v \<Rightarrow> Inr v)"

text \<open>
  \<^verbatim>\<open>get_documents(collection_name, filter, limit)\<close> is imported from the adapter
  module; the handlers take it as a parameter. It returns the list of documents or raises.
\<close>

type_synonym reader = "string \<Rightarrow> query \<Rightarrow> int option \<Rightarrow> exn + document list"

section \<open>Read endpoints\<close>

record list_response =
  items :: "document list"
  error :: "string option"

definition ok_items :: "document list \<Rightarrow> list_response" where
  "ok_items xs = \<lparr>items = xs, error = None\<rparr>"

definition degraded :: "exn \<Rightarrow> list_response" where
  "degraded e = \<lparr>items = [], error = Some e\<rparr>"

text \<open>\<^verbatim>\<open>def list_events(limit: int = 10)\<close>; an absent query parameter is \<open>None\<close>.\<close>

definition list_events :: "reader \<Rightarrow> int option \<Rightarrow> exn + list_response" where
  "list_events get_documents limit =
     (let limit = (case limit of None \<Rightarrow> 10 | Some n \<Rightarrow> n) in
      try_except
        (case get_documents ''event'' [] (Some limit) of
           Inl e \<Rightarrow> Inl e
         | Inr docs \<Rightarrow> Inr (ok_items docs))
        (\<lambda>e. Inr (degraded e)))"

text \<open>
  The filter of \<^verbatim>\<open>list_resources\<close>: \<^verbatim>\<open>if type: query["type"] = type\<close> and
  the same for \<^verbatim>\<open>language\<close>. \<open>None\<close> and the empty string are both falsy.
\<close>

definition truthy :: "string option \<Rightarrow> bool" where
  "truthy p = (case p of None \<Rightarrow> False | Some s \<Rightarrow> s \<noteq> [])"

definition resources_query :: "string option \<Rightarrow> string option \<Rightarrow> query" where
  "resources_query type_q language =
     (let query = [];
          query = (if truthy type_q then query @ [(''type'', JStr (the type_q))] else query);
          query = (if truthy language then query @ [(''language'', JStr (the language))] else query)
      in query)"

definition list_resources ::
  "reader \<Rightarrow> int option \<Rightarrow> string option \<Rightarrow> string option \<Rightarrow> exn + list_response" where
  "list_resources get_documents limit type_q language =
     (let limit = (case limit of None \<Rightarrow> 20 | Some n \<Rightarrow> n) in
      try_except
        (case get_documents ''resource'' (resources_query type_q language) (Some limit) of
           Inl e \<Rightarrow> Inl e
         | Inr docs \<Rightarrow> Inr (ok_items docs))
        (\<lambda>e. Inr (degraded e)))"

definition list_partners :: "reader \<Rightarrow> int option \<Rightarrow> exn + list_response" where
  "list_partners get_documents limit =
     (let limit = (case limit of None \<Rightarrow> 20 | Some n \<Rightarrow> n) in
      try_except
        (case get_documents ''partner'' [] (Some limit) of
           Inl e \<Rightarrow> Inl e
         | Inr docs \<Rightarrow> Inr (ok_items docs))
        (\<lambda>e. Inr (degraded e)))"

definition list_stories :: "reader \<Rightarrow> int option \<Rightarrow> exn + list_response" where
  "list_stories get_documents limit =
     (let limit = (case limit of None \<Rightarrow> 10 | Some n \<Rightarrow> n) in
      try_except
        (case get_documents ''story'' [(''featured'', JBool True)] (Some limit) of
           Inl e \<Rightarrow> Inl e
         | Inr docs \<Rightarrow> Inr (ok_items docs))
        (\<lambda>e. Inr (degraded e)))"

text \<open>The defaults of \<^verbatim>\<open>list_stats\<close>, written out twice in the source.\<close>

definition stat :: "string \<Rightarrow> int \<Rightarrow> document" where
  "stat l v = [''label'' \<mapsto> JStr l, ''value'' \<mapsto> JInt v]"

definition default_stats :: "document list" where
  "default_stats =
     [stat ''Tests Conducted'' 0, stat ''Youth Trained'' 0,
      stat ''Communities Served'' 0, stat ''Lives Impacted'' 0]"

definition list_stats :: "reader \<Rightarrow> exn + list_response" where
  "list_stats get_documents =
     try_except
       (case get_documents ''sitestat'' [] None of
          Inl e \<Rightarrow> Inl e
        | Inr docs \<Rightarrow>
            (let docs = (if docs = [] then default_stats else docs)
             in Inr (ok_items docs)))
       (\<lambda>e. Inr (ok_items default_stats))"

section \<open>Schemas\<close>

text \<open>
  The validated records of the three write endpoints, one per Pydantic class of
  \<^verbatim>\<open>schemas.py\<close>. \<^verbatim>\<open>Optional[str]\<close> is \<open>string option\<close>.
\<close>

record booking =
  event_id :: string
  full_name :: string
  email :: string
  phone :: "string option"
  ticket_quantity :: int
  "notes" :: "string option"
  consent_sms :: bool

record training_application =
  full_name :: string
  email :: string
  phone :: string
  age :: "int option"
  highest_qualification :: "string option"
  area :: "string option"
  motivation :: "string option"
  consent_sms :: bool

record contact_message =
  name :: string
  email :: string
  phone :: "string option"
  subject :: string
  message :: string

datatype pydantic_model =
    Booking booking
  | TrainingApplication training_application
  | ContactMessage contact_message

text \<open>
  A validation error names the field and the kind of violation; a body can have several.
\<close>

datatype error_type =
    Missing
  | StringType
  | IntType
  | BoolType
  | GreaterThanEqual
  | LessThanEqual
  | ValueError

type_synonym error_detail = "string \<times> error_type"

type_synonym 'a validated = "error_detail list + 'a"

text \<open>
  What the validation library decides and the schemas do not: which values other than a
  JSON integer it reads as an \<^verbatim>\<open>int\<close> and which other than a JSON boolean as a
  \<^verbatim>\<open>bool\<close> (its lax mode reads some strings and numbers so), and which strings
  are syntactically valid e-mail addresses, with the normalised address it keeps.
\<close>

record validators =
  lax_int :: "json \<Rightarrow> int option"
  lax_bool :: "json \<Rightarrow> bool option"
  email_of :: "string \<Rightarrow> string option"

definition as_str :: "json \<Rightarrow> error_type + string" where
  "as_str v = (case v of JStr s \<Rightarrow> Inr s | _ \<Rightarrow> Inl StringType)"

definition as_int :: "validators \<Rightarrow> json \<Rightarrow> error_type + int" where
  "as_int V v =
     (case v of
        JInt n \<Rightarrow> Inr n
      | _ \<Rightarrow> (case lax_int V v of Some n \<Rightarrow> Inr n | None \<Rightarrow> Inl IntType))"

definition as_bool :: "validators \<Rightarrow> json \<Rightarrow> error_type + bool" where
  "as_bool V v =
     (case v of
        JBool b \<Rightarrow> Inr b
      | _ \<Rightarrow> (case lax_bool V v of Some b \<Rightarrow> Inr b | None \<Rightarrow> Inl BoolType))"

definition as_email :: "validators \<Rightarrow> json \<Rightarrow> error_type + string" where
  "as_email V v =
     (case v of
        JStr s \<Rightarrow> (case email_of V s of Some e \<Rightarrow> Inr e | None \<Rightarrow> Inl ValueError)
      | _ \<Rightarrow> Inl StringType)"

text \<open>\<^verbatim>\<open>Optional[T]\<close>: \<^verbatim>\<open>null\<close> is accepted, anything else must be a \<^verbatim>\<open>T\<close>.\<close>

definition optional :: "(json \<Rightarrow> error_type + 'a) \<Rightarrow> json \<Rightarrow> error_type + 'a option" where
  "optional p v =
     (case v of
        JNull \<Rightarrow> Inr None
      | _ \<Rightarrow> (case p v of Inl e \<Rightarrow> Inl e | Inr x \<Rightarrow> Inr (Some x)))"

text \<open>\<^verbatim>\<open>Field(..., ge=lo, le=hi)\<close> on an integer.\<close>

definition ge_le :: "int \<Rightarrow> int \<Rightarrow> (json \<Rightarrow> error_type + int) \<Rightarrow> json \<Rightarrow> error_type + int" where
  "ge_le lo hi p v =
     (case p v of
        Inl e \<Rightarrow> Inl e
      | Inr n \<Rightarrow>
          if n < lo then Inl GreaterThanEqual
          else if hi < n then Inl LessThanEqual
          else Inr n)"

text \<open>A field without a default is required; a field with one takes it when absent.\<close>

definition required :: "document \<Rightarrow> string \<Rightarrow> (json \<Rightarrow> error_type + 'a) \<Rightarrow> 'a validated" where
  "required body f p =
     (case body f of
        None \<Rightarrow> Inl [(f, Missing)]
      | Some v \<Rightarrow> (case p v of Inl e \<Rightarrow> Inl [(f, e)] | Inr x \<Rightarrow> Inr x))"

definition with_default ::
  "document \<Rightarrow> string \<Rightarrow> 'a \<Rightarrow> (json \<Rightarrow> error_type + 'a) \<Rightarrow> 'a validated" where
  "with_default body f d p =
     (case body f of
        None \<Rightarrow> Inr d
      | Some v \<Rightarrow> (case p v of Inl e \<Rightarrow> Inl [(f, e)] | Inr x \<Rightarrow> Inr x))"

definition errors_of :: "'a validated \<Rightarrow> error_detail list" where
  "errors_of r = (case r of Inl es \<Rightarrow> es | Inr _ \<Rightarrow> [])"

text \<open>
  Validation of a body against a class: every field is checked, the errors of all fields
  are reported together, and the record is built when there is none.
\<close>

definition validate_booking :: "validators \<Rightarrow> document \<Rightarrow> booking validated" where
  "validate_booking V body =
     (let f1 = required body ''event_id'' as_str;
          f2 = required body ''full_name'' as_str;
          f3 = required body ''email'' (as_email V);
          f4 = with_default body ''phone'' None (optional as_str);
          f5 = with_default body ''ticket_quantity'' 1 (ge_le 1 10 (as_int V));
          f6 = with_default body ''notes'' None (optional as_str);
          f7 = with_default body ''consent_sms'' False (as_bool V);
          errors = errors_of f1 @ errors_of f2 @ errors_of f3 @ errors_of f4
                     @ errors_of f5 @ errors_of f6 @ errors_of f7
      in if errors = []
         then Inr \<lparr>event_id = projr f1, full_name = projr f2, email = projr f3,
                    phone = projr f4, ticket_quantity = projr f5, notes = projr f6,
                    consent_sms = projr f7\<rparr>
         else Inl errors)"

definition validate_training_application ::
  "validators \<Rightarrow> document \<Rightarrow> training_application validated" where
  "validate_training_application V body =
     (let f1 = required body ''full_name'' as_str;
          f2 = required body ''email'' (as_email V);
          f3 = required body ''phone'' as_str;
          f4 = with_default body ''age'' None (optional (ge_le 16 100 (as_int V)));
          f5 = with_default body ''highest_qualification'' None (optional as_str);
          f6 = with_default body ''area'' None (optional as_str);
          f7 = with_default body ''motivation'' None (optional as_str);
          f8 = with_default body ''consent_sms'' False (as_bool V);
          errors = errors_of f1 @ errors_of f2 @ errors_of f3 @ errors_of f4
                     @ errors_of f5 @ errors_of f6 @ errors_of f7 @ errors_of f8
      in if errors = []
         then Inr \<lparr>full_name = projr f1, email = projr f2, phone = projr f3,
                    age = projr f4, highest_qualification = projr f5, area = projr f6,
                    motivation = projr f7, consent_sms = projr f8\<rparr>
         else Inl errors)"

definition validate_contact_message ::
  "validators \<Rightarrow> document \<Rightarrow> contact_message validated" where
  "validate_contact_message V body =
     (let f1 = required body ''name'' as_str;
          f2 = required body ''email'' (as_email V);
          f3 = with_default body ''phone'' None (optional as_str);
          f4 = required body ''subject'' as_str;
          f5 = required body ''message'' as_str;
          errors = errors_of f1 @ errors_of f2 @ errors_of f3 @ errors_of f4 @ errors_of f5
      in if errors = []
         then Inr \<lparr>name = projr f1, email = projr f2, phone = projr f3,
                    subject = projr f4, message = projr f5\<rparr>
         else Inl errors)"

section \<open>Write endpoints\<close>

text \<open>
  \<^verbatim>\<open>create_document(collection_name, data)\<close> is imported from the adapter module;
  the handlers take it as a parameter. It returns the new identifier or raises, and it may
  change the store, whose state \<open>'st\<close> is passed through.
\<close>

type_synonym 'st writer = "string \<Rightarrow> pydantic_model \<Rightarrow> 'st \<Rightarrow> (exn + string) \<times> 'st"

record write_response =
  id_str :: string
  status :: string

text \<open>
  What a request ends in when no body is returned: the handler's
  \<^verbatim>\<open>HTTPException\<close>, or the framework's rejection of a body that does not
  validate, which carries the errors of the fields.
\<close>

datatype http_error =
    HTTPException nat string
  | RequestValidationError "error_detail list"

fun status_code :: "http_error \<Rightarrow> nat" where
  "status_code (HTTPException code _) = code"
| "status_code (RequestValidationError _) = 422"

definition create_booking ::
  "'st writer \<Rightarrow> booking \<Rightarrow> 'st \<Rightarrow> (http_error + write_response) \<times> 'st" where
  "create_booking create_document booking st =
     (case create_document ''booking'' (Booking booking) st of
        (r, st') \<Rightarrow>
          (try_except
             (case r of
                Inl e \<Rightarrow> Inl e
              | Inr inserted_id \<Rightarrow> Inr \<lparr>id_str = inserted_id, status = ''ok''\<rparr>)
             (\<lambda>e. Inl (HTTPException 503 e)),
           st'))"

definition submit_training_application ::
  "'st writer \<Rightarrow> training_application \<Rightarrow> 'st \<Rightarrow> (http_error + write_response) \<times> 'st" where
  "submit_training_application create_document app_data st =
     (case create_document ''trainingapplication'' (TrainingApplication app_data) st of
        (r, st') \<Rightarrow>
          (try_except
             (case r of
                Inl e \<Rightarrow> Inl e
              | Inr inserted_id \<Rightarrow> Inr \<lparr>id_str = inserted_id, status = ''ok''\<rparr>)
             (\<lambda>e. Inl (HTTPException 503 e)),
           st'))"

definition submit_contact_message ::
  "'st writer \<Rightarrow> contact_message \<Rightarrow> 'st \<Rightarrow> (http_error + write_response) \<times> 'st" where
  "submit_contact_message create_document msg st =
     (case create_document ''contactmessage'' (ContactMessage msg) st of
        (r, st') \<Rightarrow>
          (try_except
             (case r of
                Inl e \<Rightarrow> Inl e
              | Inr inserted_id \<Rightarrow> Inr \<lparr>id_str = inserted_id, status = ''ok''\<rparr>)
             (\<lambda>e. Inl (HTTPException 503 e)),
           st'))"

text \<open>
  The routes. A handler with a body parameter runs only on a body that validates against
  the parameter's class; otherwise the request is rejected before the handler is entered.
\<close>

definition post_bookings ::
  "validators \<Rightarrow> 'st writer \<Rightarrow> document \<Rightarrow> 'st \<Rightarrow> (http_error + write_response) \<times> 'st" where
  "post_bookings V create_document body st =
     (case validate_booking V body of
        Inl errors \<Rightarrow> (Inl (RequestValidationError errors), st)
      | Inr booking \<Rightarrow> create_booking create_document booking st)"

definition post_applications ::
  "validators \<Rightarrow> 'st writer \<Rightarrow> document \<Rightarrow> 'st \<Rightarrow> (http_error + write_response) \<times> 'st" where
  "post_applications V create_document body st =
     (case validate_training_application V body of
        Inl errors \<Rightarrow> (Inl (RequestValidationError errors), st)
      | Inr app_data \<Rightarrow> submit_training_application create_document app_data st)"

definition post_contact ::
  "validators \<Rightarrow> 'st writer \<Rightarrow> document \<Rightarrow> 'st \<Rightarrow> (http_error + write_response) \<times> 'st" where
  "post_contact V create_document body st =
     (case validate_contact_message V body of
        Inl errors \<Rightarrow> (Inl (RequestValidationError errors), st)
      | Inr msg \<Rightarrow> submit_contact_message create_document msg st)"

section \<open>The connectivity diagnostic\<close>

text \<open>
  \<^verbatim>\<open>GET /test\<close> reads the adapter's \<^verbatim>\<open>db\<close> handle (\<open>None\<close> when there is
  no connection) and the process environment. Of a handle it reads the \<^verbatim>\<open>name\<close>
  attribute and calls \<^verbatim>\<open>list_collection_names()\<close>; either may raise. The
  symbols that start the status texts are written as their UTF-8 bytes.
\<close>

record db_handle =
  name_attr :: "exn + string option"
  list_collection_names :: "exn + string list"

type_synonym environ = "string \<Rightarrow> string option"

record test_response =
  backend :: string
  database :: string
  database_url :: "string option"
  database_name :: "string option"
  connection_status :: string
  collections :: "string list"

definition check_mark :: string where
  "check_mark = [CHR 0xE2, CHR 0x9C, CHR 0x85]"

definition cross_mark :: string where
  "cross_mark = [CHR 0xE2, CHR 0x9D, CHR 0x8C]"

definition warning_sign :: string where
  "warning_sign = [CHR 0xE2, CHR 0x9A, CHR 0xA0, CHR 0xEF, CHR 0xB8, CHR 0x8F]"

text \<open>\<^verbatim>\<open>"Set" if os.getenv(k) else "Not Set"\<close>: an unset and an empty variable are falsy.\<close>

definition set_or_not :: "environ \<Rightarrow> string \<Rightarrow> string" where
  "set_or_not env k =
     (if truthy (env k) then check_mark @ '' Set'' else cross_mark @ '' Not Set'')"

text \<open>
  The body of the outer \<^verbatim>\<open>try\<close>: it returns the response as far as it was
  written, and the exception when a statement raised outside the inner \<^verbatim>\<open>try\<close>.
\<close>

definition test_database_try :: "environ \<Rightarrow> db_handle option \<Rightarrow> test_response \<Rightarrow> exn option \<times> test_response" where
  "test_database_try env db response =
     (case db of
        Some d \<Rightarrow>
          (let response = response\<lparr>database := check_mark @ '' Available''\<rparr>;
               response = response\<lparr>database_url := Some (set_or_not env ''DATABASE_URL'')\<rparr>
           in case name_attr d of
                Inl e \<Rightarrow> (Some e, response)
              | Inr n \<Rightarrow>
                  (let response = response\<lparr>database_name :=
                                     Some (if truthy n then the n else check_mark @ '' Set'')\<rparr>;
                       response = response\<lparr>connection_status := ''Connected''\<rparr>
                   in case list_collection_names d of
                        Inr names \<Rightarrow>
                          (None, response\<lparr>collections := names,
                                            database := check_mark @ '' Connected & Working''\<rparr>)
                      | Inl e \<Rightarrow>
                          (None, response\<lparr>database :=
                                   warning_sign @ '' Connected but Error: '' @ take 80 e\<rparr>)))
      | None \<Rightarrow>
          (None, response\<lparr>database := warning_sign @ '' Available but not initialized''\<rparr>))"

definition test_database :: "environ \<Rightarrow> db_handle option \<Rightarrow> exn + test_response" where
  "test_database env db =
     (let response = \<lparr>backend = check_mark @ '' Running'',
                       database = cross_mark @ '' Not Available'',
                       database_url = None,
                       database_name = None,
                       connection_status = ''Not Connected'',
                       collections = []\<rparr>;
          response = (case test_database_try env db response of
                        (None, response) \<Rightarrow> response
                      | (Some e, response) \<Rightarrow>
                          response\<lparr>database := cross_mark @ '' Error: '' @ take 80 e\<rparr>);
          response = response\<lparr>database_url := Some (set_or_not env ''DATABASE_URL'')\<rparr>;
          response = response\<lparr>database_name := Some (set_or_not env ''DATABASE_NAME'')\<rparr>
      in Inr response)"

section \<open>Schema introspection\<close>

text \<open>
  What \<^verbatim>\<open>get_schema\<close> reads of a class: its name and, in the order of declaration,
  each field's annotation, default, default factory (given by the value it makes) and
  description. A field declared with \<^verbatim>\<open>...\<close> or with no value has no default.
\<close>

datatype annotation =
    TStr
  | TInt
  | TBool
  | TDatetime
  | TEmailStr
  | TOptional annotation
  | TList annotation

datatype default_value = PydanticUndefined | Default json

record field_info =
  annotation :: annotation
  default :: default_value
  default_factory :: "json option"
  description :: "string option"

record model_class =
  class_name :: string
  model_fields :: "(string \<times> field_info) list"

definition Field :: "annotation \<Rightarrow> default_value \<Rightarrow> string option \<Rightarrow> field_info" where
  "Field a d descr = \<lparr>annotation = a, default = d, default_factory = None, description = descr\<rparr>"

definition Event :: model_class where
  "Event = \<lparr>class_name = ''Event'', model_fields =
     [(''title'', Field TStr PydanticUndefined (Some ''Event title'')),
      (''description'', Field (TOptional TStr) (Default JNull) (Some ''Event description'')),
      (''start_time'', Field TDatetime PydanticUndefined (Some ''Event start time'')),
      (''end_time'', Field TDatetime PydanticUndefined (Some ''Event end time'')),
      (''location'', Field TStr PydanticUndefined (Some ''Location or venue'')),
      (''organizer'', Field (TOptional TStr) (Default JNull) (Some ''Organizer name'')),
      (''capacity'', Field (TOptional TInt) (Default JNull) None),
      (''status'', Field TStr (Default (JStr ''published''))
                     (Some ''draft | published | cancelled'')),
      (''categories'', \<lparr>annotation = TList TStr, default = PydanticUndefined,
                         default_factory = Some (JList []), description = None\<rparr>)]\<rparr>"

definition Booking_class :: model_class where
  "Booking_class = \<lparr>class_name = ''Booking'', model_fields =
     [(''event_id'', Field TStr PydanticUndefined (Some ''Related event _id'')),
      (''full_name'', Field TStr PydanticUndefined None),
      (''email'', Field TEmailStr PydanticUndefined None),
      (''phone'', Field (TOptional TStr) (Default JNull) None),
      (''ticket_quantity'', Field TInt (Default (JInt 1)) None),
      (''notes'', Field (TOptional TStr) (Default JNull) None),
      (''consent_sms'', Field TBool (Default (JBool False)) (Some ''SMS reminders consent''))]\<rparr>"

definition TrainingApplication_class :: model_class where
  "TrainingApplication_class = \<lparr>class_name = ''TrainingApplication'', model_fields =
     [(''full_name'', Field TStr PydanticUndefined None),
      (''email'', Field TEmailStr PydanticUndefined None),
      (''phone'', Field TStr PydanticUndefined None),
      (''age'', Field (TOptional TInt) (Default JNull) None),
      (''highest_qualification'', Field (TOptional TStr) (Default JNull) None),
      (''area'', Field (TOptional TStr) (Default JNull) None),
      (''motivation'', Field (TOptional TStr) (Default JNull) None),
      (''consent_sms'', Field TBool (Default (JBool False)) None)]\<rparr>"

definition ContactMessage_class :: model_class where
  "ContactMessage_class = \<lparr>class_name = ''ContactMessage'', model_fields =
     [(''name'', Field TStr PydanticUndefined None),
      (''email'', Field TEmailStr PydanticUndefined None),
      (''phone'', Field (TOptional TStr) (Default JNull) None),
      (''subject'', Field TStr PydanticUndefined None),
      (''message'', Field TStr PydanticUndefined None)]\<rparr>"

definition Story :: model_class where
  "Story = \<lparr>class_name = ''Story'', model_fields =
     [(''title'', Field TStr PydanticUndefined None),
      (''body'', Field TStr PydanticUndefined None),
      (''author'', Field (TOptional TStr) (Default JNull) None),
      (''featured'', Field TBool (Default (JBool False)) None)]\<rparr>"

definition Partner :: model_class where
  "Partner = \<lparr>class_name = ''Partner'', model_fields =
     [(''name'', Field TStr PydanticUndefined None),
      (''logo_url'', Field (TOptional TStr) (Default JNull) None),
      (''website'', Field (TOptional TStr) (Default JNull) None),
      (''category'', Field (TOptional TStr) (Default JNull) None)]\<rparr>"

definition Resource :: model_class where
  "Resource = \<lparr>class_name = ''Resource'', model_fields =
     [(''title'', Field TStr PydanticUndefined None),
      (''type'', Field TStr PydanticUndefined (Some ''pdf | image | video | link'')),
      (''url'', Field TStr PydanticUndefined None),
      (''description'', Field (TOptional TStr) (Default JNull) None),
      (''language'', Field (TOptional TStr) (Default (JStr ''English'')) None)]\<rparr>"

definition SiteStat :: model_class where
  "SiteStat = \<lparr>class_name = ''SiteStat'', model_fields =
     [(''label'', Field TStr PydanticUndefined None),
      (''value'', Field TInt (Default (JInt 0)) None)]\<rparr>"

text \<open>\<^verbatim>\<open>field.is_required()\<close>: no default and no default factory.\<close>

definition is_required :: "field_info \<Rightarrow> bool" where
  "is_required f = (default f = PydanticUndefined \<and> default_factory f = None)"

text \<open>\<^verbatim>\<open>str(field.annotation)\<close>: a class prints as such, a generic alias by its parts.\<close>

fun type_repr :: "annotation \<Rightarrow> string" where
  "type_repr TStr = ''str''"
| "type_repr TInt = ''int''"
| "type_repr TBool = ''bool''"
| "type_repr TDatetime = ''datetime.datetime''"
| "type_repr TEmailStr = ''pydantic.networks.EmailStr''"
| "type_repr (TOptional a) = ''typing.Optional['' @ type_repr a @ '']''"
| "type_repr (TList a) = ''typing.List['' @ type_repr a @ '']''"

fun str_annotation :: "annotation \<Rightarrow> string" where
  "str_annotation (TOptional a) = type_repr (TOptional a)"
| "str_annotation (TList a) = type_repr (TList a)"
| "str_annotation a = ''<class '' @ [CHR 0x27] @ type_repr a @ [CHR 0x27] @ ''>''"

definition lower_char :: "char \<Rightarrow> char" where
  "lower_char c =
     (let n = (of_char c :: nat) in if 65 \<le> n \<and> n \<le> 90 then char_of (n + 32) else c)"

definition lower :: "string \<Rightarrow> string" where
  "lower s = map lower_char s"

record field_schema =
  annotation_str :: string
  required_flag :: bool
  default_out :: default_value
  description_out :: "string option"

record schema_entry =
  collection :: string
  fields_out :: "(string \<times> field_schema) list"

definition model_schema :: "model_class \<Rightarrow> schema_entry" where
  "model_schema model =
     \<lparr>collection = lower (class_name model),
      fields_out = map (\<lambda>(name, field).
                 (name, \<lparr>annotation_str = str_annotation (annotation field),
                         required_flag = is_required field,
                         default_out = (if is_required field then Default JNull
                                        else default field),
                         description_out = description field\<rparr>))
               (model_fields model)\<rparr>"

definition get_schema :: "(string \<times> schema_entry) list" where
  "get_schema =
     [(''event'', model_schema Event),
      (''booking'', model_schema Booking_class),
      (''trainingapplication'', model_schema TrainingApplication_class),
      (''contactmessage'', model_schema ContactMessage_class),
      (''story'', model_schema Story),
      (''partner'', model_schema Partner),
      (''resource'', model_schema Resource),
      (''sitestat'', model_schema SiteStat)]"

section \<open>The document store adapter\<close>

text \<open>
  Modelled from the spec: the adapter module behind \<^verbatim>\<open>create_document\<close>,
  \<^verbatim>\<open>get_documents\<close> and \<^verbatim>\<open>db\<close> is not among the sources. The state of
  the store, after section 4.2: whether a database connection exists, a lower-level failure
  (network, serialization) that the next operation meets, the documents of each named
  collection in insertion order, and how many identifiers the store has assigned.
\<close>

record store =
  connected :: bool
  failure :: "string option"
  colls :: "string \<Rightarrow> document list"
  assigned :: nat

text \<open>
  Modelled from the spec: the identifier the store assigns is missing with the adapter.
  Section 3 makes it unique and returns it as an opaque string, section 8 makes that
  string non-empty; it is taken to be the decimal numeral of the insertion count.
\<close>

fun decimal :: "nat \<Rightarrow> string" where
  "decimal n =
     (if n < 10 then [char_of (48 + n)]
      else decimal (n div 10) @ [char_of (48 + n mod 10)])"

declare decimal.simps [simp del]

text \<open>
  Modelled from the spec: how the adapter writes an optional field is missing with it. A
  field that holds nothing is \<^verbatim>\<open>null\<close> in the document.
\<close>

definition nullable :: "('a \<Rightarrow> json) \<Rightarrow> 'a option \<Rightarrow> json" where
  "nullable j x = (case x of None \<Rightarrow> JNull | Some v \<Rightarrow> j v)"

text \<open>
  Modelled from the spec: the document persisted for a validated record is missing with
  the adapter. Section 3 has a record persisted verbatim, with no field renamed and none
  derived.
\<close>

fun model_dump :: "pydantic_model \<Rightarrow> document" where
  "model_dump (Booking b) =
     [''event_id'' \<mapsto> JStr (event_id b),
      ''full_name'' \<mapsto> JStr (booking.full_name b),
      ''email'' \<mapsto> JStr (booking.email b),
      ''phone'' \<mapsto> nullable JStr (booking.phone b),
      ''ticket_quantity'' \<mapsto> JInt (ticket_quantity b),
      ''notes'' \<mapsto> nullable JStr (notes b),
      ''consent_sms'' \<mapsto> JBool (booking.consent_sms b)]"
| "model_dump (TrainingApplication a) =
     [''full_name'' \<mapsto> JStr (training_application.full_name a),
      ''email'' \<mapsto> JStr (training_application.email a),
      ''phone'' \<mapsto> JStr (training_application.phone a),
      ''age'' \<mapsto> nullable JInt (age a),
      ''highest_qualification'' \<mapsto> nullable JStr (highest_qualification a),
      ''area'' \<mapsto> nullable JStr (area a),
      ''motivation'' \<mapsto> nullable JStr (motivation a),
      ''consent_sms'' \<mapsto> JBool (training_application.consent_sms a)]"
| "model_dump (ContactMessage m) =
     [''name'' \<mapsto> JStr (name m),
      ''email'' \<mapsto> JStr (contact_message.email m),
      ''phone'' \<mapsto> nullable JStr (contact_message.phone m),
      ''subject'' \<mapsto> JStr (subject m),
      ''message'' \<mapsto> JStr (message m)]"

text \<open>
  Modelled from the spec: \<^verbatim>\<open>create_document\<close> is missing with the adapter. It is
  the \<open>insert\<close> of section 4.2: it fails with StoreUnavailable when no connection
  exists and with StoreError on a lower-level failure, and otherwise appends the record,
  with the identifier assigned to it, to the named collection and returns the identifier.
\<close>

definition create_document :: "store writer" where
  "create_document collection_name data s =
     (if \<not> connected s then (Inl ''StoreUnavailable'', s)
      else case failure s of
        Some m \<Rightarrow> (Inl (''StoreError: '' @ m), s)
      | None \<Rightarrow>
          (let i = decimal (assigned s);
               d = (model_dump data)(''_id'' \<mapsto> JStr i)
           in (Inr i,
               s\<lparr>colls := (colls s)(collection_name := colls s collection_name @ [d]),
                 assigned := Suc (assigned s)\<rparr>)))"

text \<open>
  Modelled from the spec: the matching of a document against a filter is missing with the
  adapter. The filter of section 4.2 is exact-match: every entry names a field and the
  value the field must have, and the empty filter matches every document.
\<close>

definition matches :: "query \<Rightarrow> document \<Rightarrow> bool" where
  "matches q d = list_all (\<lambda>(k, v). d k = Some v) q"

text \<open>
  Modelled from the spec: \<^verbatim>\<open>get_documents\<close> is missing with the adapter. It is
  the \<open>query\<close> of section 4.2: up to \<open>limit\<close> records (all of them when the limit
  is absent) of the named collection that match the filter; it fails as \<open>insert\<close> does.
\<close>

definition get_documents :: "store \<Rightarrow> reader" where
  "get_documents s collection_name q limit =
     (if \<not> connected s then Inl ''StoreUnavailable''
      else case failure s of
        Some m \<Rightarrow> Inl (''StoreError: '' @ m)
      | None \<Rightarrow>
          (let found = filter (matches q) (colls s collection_name)
           in Inr (case limit of None \<Rightarrow> found | Some n \<Rightarrow> take (nat n) found)))"

text \<open>
  Modelled from the spec: states of the store to run examples on. A store that is
  connected and empty.
\<close>

definition up :: store where
  "up = \<lparr>connected = True, failure = None, colls = (\<lambda>c. []), assigned = 0\<rparr>"

text \<open>Modelled from the spec: a store without a database connection.\<close>

definition down :: store where
  "down = \<lparr>connected = False, failure = None, colls = (\<lambda>c. []), assigned = 0\<rparr>"

text \<open>Two resource documents, a PDF and a video.\<close>

definition handbook :: document where
  "handbook = [''title'' \<mapsto> JStr ''Handbook'', ''type'' \<mapsto> JStr ''pdf'',
               ''url'' \<mapsto> JStr ''https://example.org/handbook.pdf'']"

definition clip :: document where
  "clip = [''title'' \<mapsto> JStr ''Clip'', ''type'' \<mapsto> JStr ''video'',
           ''url'' \<mapsto> JStr ''https://example.org/clip.mp4'']"

text \<open>Modelled from the spec: a connected store that holds the two resources.\<close>

definition shelf :: store where
  "shelf = \<lparr>connected = True, failure = None,
            colls = (\<lambda>c. if c = ''resource'' then [clip, handbook] else []),
            assigned = 2\<rparr>"

section \<open>The specification's own words\<close>

text \<open>
  The data model of section 3 of the specification: for each collection, the required
  fields and the optional fields, as the table lists them.
\<close>

definition data_model :: "(string \<times> string list \<times> string list) list" where
  "data_model =
     [(''event'', [''title'', ''start_time'', ''end_time'', ''location''],
         [''description'', ''organizer'', ''capacity'', ''status'', ''categories'']),
      (''booking'', [''event_id'', ''full_name'', ''email''],
         [''phone'', ''ticket_quantity'', ''notes'', ''consent_sms'']),
      (''trainingapplication'', [''full_name'', ''email'', ''phone''],
         [''age'', ''highest_qualification'', ''area'', ''motivation'', ''consent_sms'']),
      (''contactmessage'', [''name'', ''email'', ''subject'', ''message''], [''phone'']),
      (''story'', [''title'', ''body''], [''author'', ''featured'']),
      (''partner'', [''name''], [''logo_url'', ''website'', ''category'']),
      (''resource'', [''title'', ''type'', ''url''], [''description'', ''language'']),
      (''sitestat'', [''label''], [''value''])]"

text \<open>What an entry of the schema endpoint says of a collection, to compare with the table.\<close>

definition required_names :: "schema_entry \<Rightarrow> string list" where
  "required_names e = map fst (filter (\<lambda>(n, f). required_flag f) (fields_out e))"

definition optional_names :: "schema_entry \<Rightarrow> string list" where
  "optional_names e = map fst (filter (\<lambda>(n, f). \<not> required_flag f) (fields_out e))"

text \<open>Whether a validation accepted the body, and what a response says of a rejection.\<close>

definition accepts :: "'a validated \<Rightarrow> bool" where
  "accepts r = (case r of Inl _ \<Rightarrow> False | Inr _ \<Rightarrow> True)"

definition client_error :: "http_error + 'a \<Rightarrow> bool" where
  "client_error r =
     (case r of Inl e \<Rightarrow> 400 \<le> status_code e \<and> status_code e < 500 | Inr _ \<Rightarrow> False)"

definition field_errors :: "http_error + 'a \<Rightarrow> error_detail list" where
  "field_errors r = (case r of Inl (RequestValidationError es) \<Rightarrow> es | _ \<Rightarrow> [])"

text \<open>Conditions on a body, in the words of the specification on validation.\<close>

definition present :: "document \<Rightarrow> string \<Rightarrow> bool" where
  "present body f = (body f \<noteq> None)"

definition present_str :: "document \<Rightarrow> string \<Rightarrow> bool" where
  "present_str body f = (case body f of Some (JStr _) \<Rightarrow> True | _ \<Rightarrow> False)"

definition valid_email :: "validators \<Rightarrow> document \<Rightarrow> bool" where
  "valid_email V body =
     (case body ''email'' of Some (JStr s) \<Rightarrow> email_of V s \<noteq> None | _ \<Rightarrow> False)"

definition invalid_email :: "validators \<Rightarrow> document \<Rightarrow> bool" where
  "invalid_email V body =
     (case body ''email'' of Some (JStr s) \<Rightarrow> email_of V s = None | _ \<Rightarrow> False)"

definition absent_null_or_str :: "document \<Rightarrow> string \<Rightarrow> bool" where
  "absent_null_or_str body f =
     (case body f of None \<Rightarrow> True | Some JNull \<Rightarrow> True | Some (JStr _) \<Rightarrow> True | _ \<Rightarrow> False)"

text \<open>An integer: a JSON integer, or a value that the library reads as an integer.\<close>

definition int_value :: "validators \<Rightarrow> json \<Rightarrow> int option" where
  "int_value V v = (case v of JInt n \<Rightarrow> Some n | _ \<Rightarrow> lax_int V v)"

definition bool_value :: "validators \<Rightarrow> json \<Rightarrow> bool option" where
  "bool_value V v = (case v of JBool b \<Rightarrow> Some b | _ \<Rightarrow> lax_bool V v)"

definition absent_or_int_in :: "validators \<Rightarrow> int \<Rightarrow> int \<Rightarrow> document \<Rightarrow> string \<Rightarrow> bool" where
  "absent_or_int_in V lo hi body f =
     (case body f of
        None \<Rightarrow> True
      | Some v \<Rightarrow> (case int_value V v of None \<Rightarrow> False | Some n \<Rightarrow> lo \<le> n \<and> n \<le> hi))"

definition absent_or_bool :: "validators \<Rightarrow> document \<Rightarrow> string \<Rightarrow> bool" where
  "absent_or_bool V body f =
     (case body f of None \<Rightarrow> True | Some v \<Rightarrow> bool_value V v \<noteq> None)"

text \<open>The acceptance condition of a booking as first worded (C5).\<close>

definition booking_claimed :: "validators \<Rightarrow> document \<Rightarrow> bool" where
  "booking_claimed V body =
     (present body ''event_id'' \<and> present body ''full_name'' \<and> present body ''email''
      \<and> valid_email V body
      \<and> absent_or_int_in V 1 10 body ''ticket_quantity'')"

text \<open>The same with the declared type of every field supplied.\<close>

definition booking_well_typed :: "validators \<Rightarrow> document \<Rightarrow> bool" where
  "booking_well_typed V body =
     (present_str body ''event_id'' \<and> present_str body ''full_name''
      \<and> valid_email V body
      \<and> absent_null_or_str body ''phone''
      \<and> absent_or_int_in V 1 10 body ''ticket_quantity''
      \<and> absent_null_or_str body ''notes''
      \<and> absent_or_bool V body ''consent_sms'')"

text \<open>The filter of the resources listing as first worded (C7): an entry per parameter present.\<close>

definition query_claimed :: "string option \<Rightarrow> string option \<Rightarrow> query" where
  "query_claimed type_q language =
     (case type_q of None \<Rightarrow> [] | Some t \<Rightarrow> [(''type'', JStr t)])
     @ (case language of None \<Rightarrow> [] | Some l \<Rightarrow> [(''language'', JStr l)])"

text \<open>
  An instance of the library's decisions to run examples on: nothing but JSON integers and
  booleans is read as such, and an address is any string with an at sign, kept as it is.
\<close>

definition strict :: validators where
  "strict = \<lparr>lax_int = (\<lambda>v. None), lax_bool = (\<lambda>v. None),
             email_of = (\<lambda>s. if CHR ''@'' \<in> set s then Some s else None)\<rparr>"

text \<open>The limit a listing passes to the store: the one asked for, or the route's default.\<close>

definition limit_or :: "int \<Rightarrow> int option \<Rightarrow> int" where
  "limit_or d limit = (case limit of None \<Rightarrow> d | Some n \<Rightarrow> n)"

text \<open>
  A rejection of a request for a field: a client error whose detail names the field and
  the kind of violation, with the store left as it was.
\<close>

definition rejected_for ::
  "string \<Rightarrow> error_type \<Rightarrow> (http_error + 'a) \<times> 'st \<Rightarrow> 'st \<Rightarrow> bool" where
  "rejected_for f k out st =
     (case out of (r, st') \<Rightarrow> client_error r \<and> (f, k) \<in> set (field_errors r) \<and> st' = st)"

text \<open>
  What a write endpoint may answer to a body that validates: the envelope with a
  non-empty identifier and status "ok", or a service-unavailable error.
\<close>

definition envelope_or_unavailable :: "http_error + write_response \<Rightarrow> bool" where
  "envelope_or_unavailable out =
     (case out of
        Inr r \<Rightarrow> id_str r \<noteq> [] \<and> status r = ''ok''
      | Inl (HTTPException code d) \<Rightarrow> code = 503
      | Inl (RequestValidationError es) \<Rightarrow> False)"

text \<open>A body that has the required fields of all three forms.\<close>

definition everything :: document where
  "everything =
     [''event_id'' \<mapsto> JStr ''evt1'', ''full_name'' \<mapsto> JStr ''Thandi M'',
      ''email'' \<mapsto> JStr ''thandi@example.org'', ''phone'' \<mapsto> JStr ''0115550100'',
      ''name'' \<mapsto> JStr ''Thandi'', ''subject'' \<mapsto> JStr ''Hello'',
      ''message'' \<mapsto> JStr ''When is the next test day?'']"

text \<open>A writer whose state is the number of insertions it has made.\<close>

definition counting :: "nat writer" where
  "counting collection_name data n = (Inr ''doc'', Suc n)"

section \<open>Properties of the read endpoints\<close>

lemma default_stats_length: "length default_stats = 4"
  by (simp add: default_stats_def)

lemma list_stats_cases:
  "list_stats gd =
     Inr (ok_items (case gd ''sitestat'' [] None of
                      Inl e \<Rightarrow> default_stats
                    | Inr xs \<Rightarrow> if xs = [] then default_stats else xs))"
  by (simp add: list_stats_def try_except_def split: sum.splits)

text \<open>
  C10. Every response of GET /api/stats carries a non-empty items list: whatever the
  adapter does (returns documents, returns nothing, raises), the handler returns
  normally, and the list it returns is the store's non-empty result or the four defaults.
\<close>

theorem list_stats_items_nonempty:
  "\<exists>r. list_stats gd = Inr r \<and> items r \<noteq> [] \<and> error r = None"
proof -
  have "default_stats \<noteq> []"
    using default_stats_length by auto
  then show ?thesis
    unfolding list_stats_cases by (auto simp: ok_items_def split: sum.splits)
qed

text \<open>
  C3. GET /api/stats returns exactly the four zero-valued defaults (Tests Conducted,
  Youth Trained, Communities Served, Lives Impacted, each with value 0, and no error
  field) when the store query yields an empty result and when it raises; in every other
  case it returns the store's records unchanged.
\<close>

theorem list_stats_fallback:
  "default_stats =
     [[''label'' \<mapsto> JStr ''Tests Conducted'', ''value'' \<mapsto> JInt 0],
      [''label'' \<mapsto> JStr ''Youth Trained'', ''value'' \<mapsto> JInt 0],
      [''label'' \<mapsto> JStr ''Communities Served'', ''value'' \<mapsto> JInt 0],
      [''label'' \<mapsto> JStr ''Lives Impacted'', ''value'' \<mapsto> JInt 0]]
   \<and> (gd ''sitestat'' [] None = Inr [] \<longrightarrow> list_stats gd = Inr (ok_items default_stats))
   \<and> (gd ''sitestat'' [] None = Inl e \<longrightarrow> list_stats gd = Inr (ok_items default_stats))
   \<and> (gd ''sitestat'' [] None = Inr xs \<and> xs \<noteq> [] \<longrightarrow> list_stats gd = Inr (ok_items xs))"
  unfolding list_stats_cases by (simp add: default_stats_def stat_def)

theorem list_stats_fallback_witness:
  "list_stats (\<lambda>c q l. Inr []) = Inr (ok_items default_stats)
   \<and> list_stats (\<lambda>c q l. Inl ''connection refused'') = Inr (ok_items default_stats)
   \<and> list_stats (\<lambda>c q l. Inr [stat ''Tests Conducted'' 7])
       = Inr (ok_items [stat ''Tests Conducted'' 7])"
  using list_stats_fallback [of "\<lambda>c q l. Inr []" "''x''" "[]"]
        list_stats_fallback [of "\<lambda>c q l. Inl ''connection refused''" "''connection refused''" "[]"]
        list_stats_fallback [of "\<lambda>c q l. Inr [stat ''Tests Conducted'' 7]" "''x''"
                                "[stat ''Tests Conducted'' 7]"]
  by simp

text \<open>
  C4. Each of the listings of events, resources, partners and stories returns normally
  whatever the store call does: when the call raises, the body is an empty items list
  with the exception's message in the error field; when it succeeds, the body is the
  records and no error field.
\<close>

theorem list_endpoints_degrade:
  "(gd ''event'' [] (Some (limit_or 10 limit)) = Inl e
      \<longrightarrow> list_events gd limit = Inr \<lparr>items = [], error = Some e\<rparr>)
   \<and> (gd ''event'' [] (Some (limit_or 10 limit)) = Inr xs
      \<longrightarrow> list_events gd limit = Inr \<lparr>items = xs, error = None\<rparr>)
   \<and> (gd ''resource'' (resources_query t l) (Some (limit_or 20 limit)) = Inl e
      \<longrightarrow> list_resources gd limit t l = Inr \<lparr>items = [], error = Some e\<rparr>)
   \<and> (gd ''resource'' (resources_query t l) (Some (limit_or 20 limit)) = Inr xs
      \<longrightarrow> list_resources gd limit t l = Inr \<lparr>items = xs, error = None\<rparr>)
   \<and> (gd ''partner'' [] (Some (limit_or 20 limit)) = Inl e
      \<longrightarrow> list_partners gd limit = Inr \<lparr>items = [], error = Some e\<rparr>)
   \<and> (gd ''partner'' [] (Some (limit_or 20 limit)) = Inr xs
      \<longrightarrow> list_partners gd limit = Inr \<lparr>items = xs, error = None\<rparr>)
   \<and> (gd ''story'' [(''featured'', JBool True)] (Some (limit_or 10 limit)) = Inl e
      \<longrightarrow> list_stories gd limit = Inr \<lparr>items = [], error = Some e\<rparr>)
   \<and> (gd ''story'' [(''featured'', JBool True)] (Some (limit_or 10 limit)) = Inr xs
      \<longrightarrow> list_stories gd limit = Inr \<lparr>items = xs, error = None\<rparr>)"
  by (simp add: list_events_def list_resources_def list_partners_def list_stories_def
        try_except_def limit_or_def ok_items_def degraded_def Let_def split: option.splits)

theorem list_endpoints_degrade_witness:
  "list_events (\<lambda>c q l. Inl ''StoreUnavailable'') None
     = Inr \<lparr>items = [], error = Some ''StoreUnavailable''\<rparr>
   \<and> list_resources (\<lambda>c q l. Inl ''StoreUnavailable'') None None None
     = Inr \<lparr>items = [], error = Some ''StoreUnavailable''\<rparr>
   \<and> list_partners (\<lambda>c q l. Inl ''StoreUnavailable'') None
     = Inr \<lparr>items = [], error = Some ''StoreUnavailable''\<rparr>
   \<and> list_stories (\<lambda>c q l. Inl ''StoreUnavailable'') None
     = Inr \<lparr>items = [], error = Some ''StoreUnavailable''\<rparr>
   \<and> list_events (\<lambda>c q l. Inr [stat ''a'' 1]) (Some 3)
     = Inr \<lparr>items = [stat ''a'' 1], error = None\<rparr>
   \<and> list_resources (\<lambda>c q l. Inr [stat ''a'' 1]) (Some 3) None None
     = Inr \<lparr>items = [stat ''a'' 1], error = None\<rparr>
   \<and> list_partners (\<lambda>c q l. Inr [stat ''a'' 1]) (Some 3)
     = Inr \<lparr>items = [stat ''a'' 1], error = None\<rparr>
   \<and> list_stories (\<lambda>c q l. Inr [stat ''a'' 1]) (Some 3)
     = Inr \<lparr>items = [stat ''a'' 1], error = None\<rparr>"
  using list_endpoints_degrade
          [of "\<lambda>c q l. Inl ''StoreUnavailable''" None "''StoreUnavailable''" "[]" None None]
        list_endpoints_degrade
          [of "\<lambda>c q l. Inr [stat ''a'' 1]" "Some 3" "''x''" "[stat ''a'' 1]" None None]
  by simp

text \<open>
  C9. For GET /api/resources, a type or a language parameter given as the empty string
  is treated as an absent one: the filter gets no entry for it, so the store is asked
  the same question and the response is the same.
\<close>

theorem empty_parameter_is_absent:
  "resources_query (Some []) language = resources_query None language
   \<and> resources_query type_q (Some []) = resources_query type_q None
   \<and> list_resources gd limit (Some []) language = list_resources gd limit None language
   \<and> list_resources gd limit type_q (Some []) = list_resources gd limit type_q None"
  by (simp add: list_resources_def resources_query_def truthy_def)

section \<open>Properties of validation\<close>

lemma errors_of_required:
  "errors_of (required body f p) =
     (case body f of
        None \<Rightarrow> [(f, Missing)]
      | Some v \<Rightarrow> (case p v of Inl e \<Rightarrow> [(f, e)] | Inr x \<Rightarrow> []))"
  by (simp add: errors_of_def required_def split: option.splits sum.splits)

lemma errors_of_with_default:
  "errors_of (with_default body f d p) =
     (case body f of
        None \<Rightarrow> []
      | Some v \<Rightarrow> (case p v of Inl e \<Rightarrow> [(f, e)] | Inr x \<Rightarrow> []))"
  by (simp add: errors_of_def with_default_def split: option.splits sum.splits)

lemma required_str_ok:
  "(errors_of (required body f as_str) = []) = present_str body f"
  by (simp add: errors_of_required as_str_def present_str_def
        split: option.splits json.splits)

lemma required_email_ok:
  "(errors_of (required body ''email'' (as_email V)) = []) = valid_email V body"
  by (simp add: errors_of_required as_email_def valid_email_def
        split: option.splits json.splits)

lemma optional_str_ok:
  "(errors_of (with_default body f None (optional as_str)) = []) = absent_null_or_str body f"
  by (simp add: errors_of_with_default optional_def as_str_def absent_null_or_str_def
        split: option.splits json.splits)

lemma bounded_int_ok:
  "(errors_of (with_default body f d (ge_le lo hi (as_int V))) = [])
     = absent_or_int_in V lo hi body f"
  by (auto simp add: errors_of_with_default ge_le_def as_int_def absent_or_int_in_def
        int_value_def split: option.splits json.splits)

lemma bool_ok:
  "(errors_of (with_default body f d (as_bool V)) = []) = absent_or_bool V body f"
  by (auto simp add: errors_of_with_default as_bool_def absent_or_bool_def bool_value_def
        split: option.splits json.splits)

lemma present_str_present: "present_str body f \<Longrightarrow> present body f"
  by (auto simp: present_str_def present_def split: option.splits)

lemma valid_email_present: "valid_email V body \<Longrightarrow> present body ''email''"
  by (auto simp: valid_email_def present_def split: option.splits)

lemma validate_booking_accepts:
  "accepts (validate_booking V body) = booking_well_typed V body"
  by (simp add: validate_booking_def Let_def accepts_def booking_well_typed_def
        required_str_ok required_email_ok optional_str_ok bounded_int_ok bool_ok)

lemma validate_booking_defaults:
  assumes "validate_booking V body = Inr b"
  shows "(body ''ticket_quantity'' = None \<longrightarrow> ticket_quantity b = 1)
         \<and> (body ''consent_sms'' = None \<longrightarrow> booking.consent_sms b = False)"
  using assms
  by (auto simp add: validate_booking_def Let_def with_default_def split: if_splits)

text \<open>
  C5, as amended. Booking validation accepts a body if and only if \<open>event_id\<close> and
  \<open>full_name\<close> are present strings, \<open>email\<close> is a present string that is a
  syntactically valid address, \<open>ticket_quantity\<close>, when present, is an integer in
  [1,10], and every other optional field supplied has its declared type (\<open>phone\<close> and
  \<open>notes\<close> a string or null, \<open>consent_sms\<close> a boolean). Every accepted body meets
  the condition as first worded. When absent, \<open>ticket_quantity\<close> is 1 and
  \<open>consent_sms\<close> is false in the validated record.
\<close>

theorem booking_validation:
  "accepts (validate_booking V body) = booking_well_typed V body
   \<and> (accepts (validate_booking V body) \<longrightarrow> booking_claimed V body)
   \<and> (validate_booking V body = Inr b \<longrightarrow>
        (body ''ticket_quantity'' = None \<longrightarrow> ticket_quantity b = 1)
        \<and> (body ''consent_sms'' = None \<longrightarrow> booking.consent_sms b = False))"
proof -
  have "booking_well_typed V body \<Longrightarrow> booking_claimed V body"
    by (auto simp add: booking_well_typed_def booking_claimed_def
          intro: present_str_present valid_email_present)
  then show ?thesis
    using validate_booking_accepts [of V body] validate_booking_defaults [of V body b]
    by blast
qed

theorem booking_validation_witness:
  "validate_booking strict
     [''event_id'' \<mapsto> JStr ''evt1'', ''full_name'' \<mapsto> JStr ''Thandi M'',
      ''email'' \<mapsto> JStr ''thandi@example.org'']
   = Inr \<lparr>event_id = ''evt1'', full_name = ''Thandi M'', email = ''thandi@example.org'',
          phone = None, ticket_quantity = 1, notes = None, consent_sms = False\<rparr>
   \<and> booking_well_typed strict
     [''event_id'' \<mapsto> JStr ''evt1'', ''full_name'' \<mapsto> JStr ''Thandi M'',
      ''email'' \<mapsto> JStr ''thandi@example.org'']
   \<and> booking_claimed strict
     [''event_id'' \<mapsto> JStr ''evt1'', ''full_name'' \<mapsto> JStr ''Thandi M'',
      ''email'' \<mapsto> JStr ''thandi@example.org'']"
proof -
  let ?body = "[''event_id'' \<mapsto> JStr ''evt1'', ''full_name'' \<mapsto> JStr ''Thandi M'',
                ''email'' \<mapsto> JStr ''thandi@example.org'']"
  let ?b = "\<lparr>event_id = ''evt1'', full_name = ''Thandi M'', email = ''thandi@example.org'',
             phone = None, ticket_quantity = 1, notes = None, consent_sms = False\<rparr>"
  have v: "validate_booking strict ?body = Inr ?b"
    by (simp add: validate_booking_def Let_def required_def with_default_def as_str_def
          as_email_def strict_def errors_of_def)
  then have a: "accepts (validate_booking strict ?body)"
    by (simp add: accepts_def)
  show ?thesis
    using booking_validation [of strict ?body ?b] v a by simp
qed

text \<open>
  C5 as first worded makes presence, a valid address and the ticket bounds sufficient. A
  body that meets all of it and gives \<open>phone\<close> as a number is rejected, since the
  field is declared \<^verbatim>\<open>Optional[str]\<close>.
\<close>

theorem booking_claim_counterexample:
  "booking_claimed strict
     [''event_id'' \<mapsto> JStr ''evt1'', ''full_name'' \<mapsto> JStr ''Thandi M'',
      ''email'' \<mapsto> JStr ''thandi@example.org'', ''phone'' \<mapsto> JInt 27115550100]
   \<and> validate_booking strict
     [''event_id'' \<mapsto> JStr ''evt1'', ''full_name'' \<mapsto> JStr ''Thandi M'',
      ''email'' \<mapsto> JStr ''thandi@example.org'', ''phone'' \<mapsto> JInt 27115550100]
     = Inl [(''phone'', StringType)]
   \<and> \<not> accepts (validate_booking strict
     [''event_id'' \<mapsto> JStr ''evt1'', ''full_name'' \<mapsto> JStr ''Thandi M'',
      ''email'' \<mapsto> JStr ''thandi@example.org'', ''phone'' \<mapsto> JInt 27115550100])"
  by (simp add: validate_booking_def Let_def required_def with_default_def as_str_def
        as_email_def strict_def errors_of_def optional_def accepts_def booking_claimed_def
        present_def valid_email_def absent_or_int_in_def)

section \<open>Properties of the write endpoints\<close>

lemma rejected_forI:
  "(f, k) \<in> set es \<Longrightarrow> rejected_for f k (Inl (RequestValidationError es), st) st"
  by (simp add: rejected_for_def client_error_def field_errors_def)

lemma required_missing:
  "body f = None \<Longrightarrow> errors_of (required body f p) = [(f, Missing)]"
  by (simp add: errors_of_required)

lemma email_invalid:
  "invalid_email V body \<Longrightarrow>
   errors_of (required body ''email'' (as_email V)) = [(''email'', ValueError)]"
  by (auto simp add: errors_of_required invalid_email_def as_email_def
        split: option.splits json.splits)

lemma validate_booking_Inl:
  assumes "(f, k) \<in> set (errors_of (required body ''event_id'' as_str)
                          @ errors_of (required body ''full_name'' as_str)
                          @ errors_of (required body ''email'' (as_email V)))"
  shows "\<exists>es. validate_booking V body = Inl es \<and> (f, k) \<in> set es"
proof -
  let ?es = "errors_of (required body ''event_id'' as_str)
      @ errors_of (required body ''full_name'' as_str)
      @ errors_of (required body ''email'' (as_email V))
      @ errors_of (with_default body ''phone'' None (optional as_str))
      @ errors_of (with_default body ''ticket_quantity'' 1 (ge_le 1 10 (as_int V)))
      @ errors_of (with_default body ''notes'' None (optional as_str))
      @ errors_of (with_default body ''consent_sms'' False (as_bool V))"
  from assms have m: "(f, k) \<in> set ?es" by auto
  then have "?es \<noteq> []" by (metis empty_iff empty_set)
  then have "validate_booking V body = Inl ?es"
    by (simp add: validate_booking_def Let_def)
  with m show ?thesis by blast
qed

lemma validate_training_application_Inl:
  assumes "(f, k) \<in> set (errors_of (required body ''full_name'' as_str)
                          @ errors_of (required body ''email'' (as_email V))
                          @ errors_of (required body ''phone'' as_str))"
  shows "\<exists>es. validate_training_application V body = Inl es \<and> (f, k) \<in> set es"
proof -
  let ?es = "errors_of (required body ''full_name'' as_str)
      @ errors_of (required body ''email'' (as_email V))
      @ errors_of (required body ''phone'' as_str)
      @ errors_of (with_default body ''age'' None (optional (ge_le 16 100 (as_int V))))
      @ errors_of (with_default body ''highest_qualification'' None (optional as_str))
      @ errors_of (with_default body ''area'' None (optional as_str))
      @ errors_of (with_default body ''motivation'' None (optional as_str))
      @ errors_of (with_default body ''consent_sms'' False (as_bool V))"
  from assms have m: "(f, k) \<in> set ?es" by auto
  then have "?es \<noteq> []" by (metis empty_iff empty_set)
  then have "validate_training_application V body = Inl ?es"
    by (simp add: validate_training_application_def Let_def)
  with m show ?thesis by blast
qed

lemma validate_contact_message_Inl:
  assumes "(f, k) \<in> set (errors_of (required body ''name'' as_str)
                          @ errors_of (required body ''email'' (as_email V))
                          @ errors_of (required body ''subject'' as_str)
                          @ errors_of (required body ''message'' as_str))"
  shows "\<exists>es. validate_contact_message V body = Inl es \<and> (f, k) \<in> set es"
proof -
  let ?es = "errors_of (required body ''name'' as_str)
      @ errors_of (required body ''email'' (as_email V))
      @ errors_of (with_default body ''phone'' None (optional as_str))
      @ errors_of (required body ''subject'' as_str)
      @ errors_of (required body ''message'' as_str)"
  from assms have m: "(f, k) \<in> set ?es" by auto
  then have "?es \<noteq> []" by (metis empty_iff empty_set)
  then have "validate_contact_message V body = Inl ?es"
    by (simp add: validate_contact_message_def Let_def)
  with m show ?thesis by blast
qed

lemma post_bookings_rejects:
  assumes "(f \<in> set [''event_id'', ''full_name'', ''email''] \<and> body f = None \<and> k = Missing)
           \<or> (invalid_email V body \<and> f = ''email'' \<and> k = ValueError)"
  shows "rejected_for f k (post_bookings V cd body st) st"
proof -
  from assms
  have "(f, k) \<in> set (errors_of (required body ''event_id'' as_str)
                          @ errors_of (required body ''full_name'' as_str)
                          @ errors_of (required body ''email'' (as_email V)))"
    by (auto simp add: required_missing email_invalid)
  then obtain es where "validate_booking V body = Inl es" "(f, k) \<in> set es"
    using validate_booking_Inl by blast
  then show ?thesis
    by (simp add: post_bookings_def rejected_forI)
qed

lemma post_applications_rejects:
  assumes "(f \<in> set [''full_name'', ''email'', ''phone''] \<and> body f = None \<and> k = Missing)
           \<or> (invalid_email V body \<and> f = ''email'' \<and> k = ValueError)"
  shows "rejected_for f k (post_applications V cd body st) st"
proof -
  from assms
  have "(f, k) \<in> set (errors_of (required body ''full_name'' as_str)
                          @ errors_of (required body ''email'' (as_email V))
                          @ errors_of (required body ''phone'' as_str))"
    by (auto simp add: required_missing email_invalid)
  then obtain es where "validate_training_application V body = Inl es" "(f, k) \<in> set es"
    using validate_training_application_Inl by blast
  then show ?thesis
    by (simp add: post_applications_def rejected_forI)
qed

lemma post_contact_rejects:
  assumes "(f \<in> set [''name'', ''email'', ''subject'', ''message''] \<and> body f = None \<and> k = Missing)
           \<or> (invalid_email V body \<and> f = ''email'' \<and> k = ValueError)"
  shows "rejected_for f k (post_contact V cd body st) st"
proof -
  from assms
  have "(f, k) \<in> set (errors_of (required body ''name'' as_str)
                          @ errors_of (required body ''email'' (as_email V))
                          @ errors_of (required body ''subject'' as_str)
                          @ errors_of (required body ''message'' as_str))"
    by (auto simp add: required_missing email_invalid)
  then obtain es where "validate_contact_message V body = Inl es" "(f, k) \<in> set es"
    using validate_contact_message_Inl by blast
  then show ?thesis
    by (simp add: post_contact_def rejected_forI)
qed

text \<open>
  C2. For each of the three write endpoints, a body that lacks a required field, or whose
  \<open>email\<close> is a string that is not a syntactically valid address, ends in a client
  error (status 422) whose detail names the field and the violation, and nothing is
  inserted: the store's state after the request is the state before it.
\<close>

theorem invalid_body_is_rejected:
  "(f \<in> set [''event_id'', ''full_name'', ''email''] \<and> body f = None
      \<longrightarrow> rejected_for f Missing (post_bookings V cd body st) st)
   \<and> (invalid_email V body
      \<longrightarrow> rejected_for ''email'' ValueError (post_bookings V cd body st) st)
   \<and> (g \<in> set [''full_name'', ''email'', ''phone''] \<and> body g = None
      \<longrightarrow> rejected_for g Missing (post_applications V cd body st) st)
   \<and> (invalid_email V body
      \<longrightarrow> rejected_for ''email'' ValueError (post_applications V cd body st) st)
   \<and> (h \<in> set [''name'', ''email'', ''subject'', ''message''] \<and> body h = None
      \<longrightarrow> rejected_for h Missing (post_contact V cd body st) st)
   \<and> (invalid_email V body
      \<longrightarrow> rejected_for ''email'' ValueError (post_contact V cd body st) st)"
  using post_bookings_rejects [of f body Missing V cd st]
        post_bookings_rejects [of "''email''" body ValueError V cd st]
        post_applications_rejects [of g body Missing V cd st]
        post_applications_rejects [of "''email''" body ValueError V cd st]
        post_contact_rejects [of h body Missing V cd st]
        post_contact_rejects [of "''email''" body ValueError V cd st]
  by blast

lemma validate_everything:
  "validate_booking strict everything =
     Inr \<lparr>event_id = ''evt1'', full_name = ''Thandi M'', email = ''thandi@example.org'',
          phone = Some ''0115550100'', ticket_quantity = 1, notes = None,
          consent_sms = False\<rparr>"
  "validate_training_application strict everything =
     Inr \<lparr>full_name = ''Thandi M'', email = ''thandi@example.org'',
          phone = ''0115550100'', age = None, highest_qualification = None, area = None,
          motivation = None, consent_sms = False\<rparr>"
  "validate_contact_message strict everything =
     Inr \<lparr>name = ''Thandi'', email = ''thandi@example.org'', phone = Some ''0115550100'',
          subject = ''Hello'', message = ''When is the next test day?''\<rparr>"
  by (simp_all add: validate_booking_def validate_training_application_def
        validate_contact_message_def everything_def Let_def required_def with_default_def
        as_str_def as_email_def optional_def strict_def errors_of_def)

theorem invalid_body_is_rejected_witness:
  "rejected_for ''event_id'' Missing (post_bookings strict counting Map.empty 0) 0
   \<and> rejected_for ''phone'' Missing (post_applications strict counting Map.empty 0) 0
   \<and> rejected_for ''subject'' Missing (post_contact strict counting Map.empty 0) 0
   \<and> rejected_for ''email'' ValueError
        (post_bookings strict counting (everything(''email'' \<mapsto> JStr ''nobody'')) 0) 0
   \<and> rejected_for ''email'' ValueError
        (post_applications strict counting (everything(''email'' \<mapsto> JStr ''nobody'')) 0) 0
   \<and> rejected_for ''email'' ValueError
        (post_contact strict counting (everything(''email'' \<mapsto> JStr ''nobody'')) 0) 0
   \<and> fst (post_bookings strict counting everything 0) = Inr \<lparr>id_str = ''doc'', status = ''ok''\<rparr>
   \<and> snd (post_bookings strict counting everything 0) = 1"
proof -
  have bad: "invalid_email strict (everything(''email'' \<mapsto> JStr ''nobody''))"
    by (simp add: invalid_email_def strict_def)
  have good: "post_bookings strict counting everything 0
                = (Inr \<lparr>id_str = ''doc'', status = ''ok''\<rparr>, 1)"
    by (simp add: post_bookings_def validate_everything create_booking_def counting_def
          try_except_def)
  show ?thesis
    using invalid_body_is_rejected
            [of "''event_id''" Map.empty strict counting 0 "''phone''" "''subject''"]
          invalid_body_is_rejected
            [of "''event_id''" "everything(''email'' \<mapsto> JStr ''nobody'')" strict counting 0
                "''phone''" "''subject''"]
          bad good
    by simp
qed

lemma decimal_nonempty: "decimal n \<noteq> []"
  by (subst decimal.simps) simp

lemma create_document_id_nonempty:
  "create_document c m s = (Inr i, s') \<Longrightarrow> i \<noteq> []"
  by (auto simp add: create_document_def Let_def decimal_nonempty
        split: if_splits option.splits)

lemma write_handler:
  "try_except (case r of Inl e \<Rightarrow> Inl e
                         | Inr inserted_id \<Rightarrow> Inr \<lparr>id_str = inserted_id, status = ''ok''\<rparr>)
              (\<lambda>e. Inl (HTTPException 503 e))
   = (case r of Inl e \<Rightarrow> Inl (HTTPException 503 e)
              | Inr i \<Rightarrow> Inr \<lparr>id_str = i, status = ''ok''\<rparr>)"
  by (simp add: try_except_def split: sum.splits)

lemma post_bookings_valid:
  "validate_booking V body = Inr b \<Longrightarrow> cd ''booking'' (Booking b) st = (r, st') \<Longrightarrow>
   post_bookings V cd body st =
     (case r of Inl e \<Rightarrow> Inl (HTTPException 503 e)
              | Inr i \<Rightarrow> Inr \<lparr>id_str = i, status = ''ok''\<rparr>, st')"
  by (simp add: post_bookings_def create_booking_def write_handler)

lemma post_applications_valid:
  "validate_training_application V body = Inr a \<Longrightarrow>
   cd ''trainingapplication'' (TrainingApplication a) st = (r, st') \<Longrightarrow>
   post_applications V cd body st =
     (case r of Inl e \<Rightarrow> Inl (HTTPException 503 e)
              | Inr i \<Rightarrow> Inr \<lparr>id_str = i, status = ''ok''\<rparr>, st')"
  by (simp add: post_applications_def submit_training_application_def write_handler)

lemma post_contact_valid:
  "validate_contact_message V body = Inr m \<Longrightarrow>
   cd ''contactmessage'' (ContactMessage m) st = (r, st') \<Longrightarrow>
   post_contact V cd body st =
     (case r of Inl e \<Rightarrow> Inl (HTTPException 503 e)
              | Inr i \<Rightarrow> Inr \<lparr>id_str = i, status = ''ok''\<rparr>, st')"
  by (simp add: post_contact_def submit_contact_message_def write_handler)

lemma envelope_or_unavailable_cases:
  assumes "\<forall>c p s j s'. cd c p s = (Inr j, s') \<longrightarrow> j \<noteq> []"
    and "cd c p st = (r, st')"
  shows "envelope_or_unavailable
           (case r of Inl e \<Rightarrow> Inl (HTTPException 503 e)
                    | Inr i \<Rightarrow> Inr \<lparr>id_str = i, status = ''ok''\<rparr>)"
proof (cases r)
  case (Inl e)
  then show ?thesis by (simp add: envelope_or_unavailable_def)
next
  case (Inr j)
  with assms have "j \<noteq> []" by blast
  with Inr show ?thesis by (simp add: envelope_or_unavailable_def)
qed

lemma post_bookings_outcome:
  assumes "\<forall>c p s j s'. cd c p s = (Inr j, s') \<longrightarrow> j \<noteq> []"
    and "accepts (validate_booking V body)"
  shows "envelope_or_unavailable (fst (post_bookings V cd body st))"
proof -
  from assms(2) obtain b where v: "validate_booking V body = Inr b"
    by (auto simp add: accepts_def split: sum.splits)
  obtain r st' where c: "cd ''booking'' (Booking b) st = (r, st')"
    by (cases "cd ''booking'' (Booking b) st")
  show ?thesis
    using post_bookings_valid [of V body b cd st r st'] v c
          envelope_or_unavailable_cases [of cd "''booking''" "Booking b" st r st'] assms(1)
    by simp
qed

lemma post_applications_outcome:
  assumes "\<forall>c p s j s'. cd c p s = (Inr j, s') \<longrightarrow> j \<noteq> []"
    and "accepts (validate_training_application V body)"
  shows "envelope_or_unavailable (fst (post_applications V cd body st))"
proof -
  from assms(2) obtain a where v: "validate_training_application V body = Inr a"
    by (auto simp add: accepts_def split: sum.splits)
  obtain r st' where c: "cd ''trainingapplication'' (TrainingApplication a) st = (r, st')"
    by (cases "cd ''trainingapplication'' (TrainingApplication a) st")
  show ?thesis
    using post_applications_valid [of V body a cd st r st'] v c
          envelope_or_unavailable_cases [of cd "''trainingapplication''" "TrainingApplication a" st r st'] assms(1)
    by simp
qed

lemma post_contact_outcome:
  assumes "\<forall>c p s j s'. cd c p s = (Inr j, s') \<longrightarrow> j \<noteq> []"
    and "accepts (validate_contact_message V body)"
  shows "envelope_or_unavailable (fst (post_contact V cd body st))"
proof -
  from assms(2) obtain m where v: "validate_contact_message V body = Inr m"
    by (auto simp add: accepts_def split: sum.splits)
  obtain r st' where c: "cd ''contactmessage'' (ContactMessage m) st = (r, st')"
    by (cases "cd ''contactmessage'' (ContactMessage m) st")
  show ?thesis
    using post_contact_valid [of V body m cd st r st'] v c
          envelope_or_unavailable_cases [of cd "''contactmessage''" "ContactMessage m" st r st'] assms(1)
    by simp
qed

text \<open>
  C1. For each of POST /api/bookings, /api/applications and /api/contact: when the body
  validates and the insert returns an identifier, the response is the envelope with that
  identifier and status "ok"; when the insert raises, the request ends in an
  \<^verbatim>\<open>HTTPException\<close> with status 503 and the exception's message as detail, never
  in a success response. So, with an adapter that never returns an empty identifier, a
  body that validates ends either in an envelope with a non-empty identifier and status
  "ok" or in a 503.
\<close>

theorem write_endpoints_envelope:
  "(validate_booking V body = Inr b \<and> cd ''booking'' (Booking b) st = (Inr i, st')
      \<longrightarrow> post_bookings V cd body st = (Inr \<lparr>id_str = i, status = ''ok''\<rparr>, st'))
   \<and> (validate_booking V body = Inr b \<and> cd ''booking'' (Booking b) st = (Inl e, st')
      \<longrightarrow> post_bookings V cd body st = (Inl (HTTPException 503 e), st'))
   \<and> (validate_training_application V body = Inr a
        \<and> cd ''trainingapplication'' (TrainingApplication a) st = (Inr i, st')
      \<longrightarrow> post_applications V cd body st = (Inr \<lparr>id_str = i, status = ''ok''\<rparr>, st'))
   \<and> (validate_training_application V body = Inr a
        \<and> cd ''trainingapplication'' (TrainingApplication a) st = (Inl e, st')
      \<longrightarrow> post_applications V cd body st = (Inl (HTTPException 503 e), st'))
   \<and> (validate_contact_message V body = Inr m
        \<and> cd ''contactmessage'' (ContactMessage m) st = (Inr i, st')
      \<longrightarrow> post_contact V cd body st = (Inr \<lparr>id_str = i, status = ''ok''\<rparr>, st'))
   \<and> (validate_contact_message V body = Inr m
        \<and> cd ''contactmessage'' (ContactMessage m) st = (Inl e, st')
      \<longrightarrow> post_contact V cd body st = (Inl (HTTPException 503 e), st'))
   \<and> ((\<forall>c p s j s'. cd c p s = (Inr j, s') \<longrightarrow> j \<noteq> [])
      \<longrightarrow> (accepts (validate_booking V body)
             \<longrightarrow> envelope_or_unavailable (fst (post_bookings V cd body st)))
          \<and> (accepts (validate_training_application V body)
             \<longrightarrow> envelope_or_unavailable (fst (post_applications V cd body st)))
          \<and> (accepts (validate_contact_message V body)
             \<longrightarrow> envelope_or_unavailable (fst (post_contact V cd body st))))"
  using post_bookings_valid [of V body b cd st _ st']
        post_applications_valid [of V body a cd st _ st']
        post_contact_valid [of V body m cd st _ st']
        post_bookings_outcome [of cd V body st]
        post_applications_outcome [of cd V body st]
        post_contact_outcome [of cd V body st]
  by auto

lemma decimal_0: "decimal 0 = ''0''" by code_simp

lemma create_document_up:
  "fst (create_document c p up) = Inr ''0''"
  by (simp add: create_document_def up_def Let_def decimal_0)

lemma create_document_down:
  "create_document c p down = (Inl ''StoreUnavailable'', down)"
  by (simp add: create_document_def down_def)

theorem write_endpoints_envelope_witness:
  "fst (post_bookings strict create_document everything up)
     = Inr \<lparr>id_str = ''0'', status = ''ok''\<rparr>
   \<and> fst (post_applications strict create_document everything up)
     = Inr \<lparr>id_str = ''0'', status = ''ok''\<rparr>
   \<and> fst (post_contact strict create_document everything up)
     = Inr \<lparr>id_str = ''0'', status = ''ok''\<rparr>
   \<and> post_bookings strict create_document everything down
     = (Inl (HTTPException 503 ''StoreUnavailable''), down)
   \<and> post_applications strict create_document everything down
     = (Inl (HTTPException 503 ''StoreUnavailable''), down)
   \<and> post_contact strict create_document everything down
     = (Inl (HTTPException 503 ''StoreUnavailable''), down)
   \<and> envelope_or_unavailable (fst (post_bookings strict create_document everything up))
   \<and> envelope_or_unavailable (fst (post_applications strict create_document everything up))
   \<and> envelope_or_unavailable (fst (post_contact strict create_document everything up))"
proof -
  let ?b = "\<lparr>event_id = ''evt1'', full_name = ''Thandi M'', email = ''thandi@example.org'',
             phone = Some ''0115550100'', ticket_quantity = 1, notes = None,
             consent_sms = False\<rparr>"
  let ?a = "\<lparr>full_name = ''Thandi M'', email = ''thandi@example.org'',
             phone = ''0115550100'', age = None, highest_qualification = None,
             area = None, motivation = None, consent_sms = False\<rparr>"
  let ?m = "\<lparr>name = ''Thandi'', email = ''thandi@example.org'',
             phone = Some ''0115550100'', subject = ''Hello'',
             message = ''When is the next test day?''\<rparr>"
  have ok: "create_document c p up = (Inr ''0'', snd (create_document c p up))" for c p
    using create_document_up [of c p] by (cases "create_document c p up") simp
  have ids: "\<forall>c p s j s'. create_document c p s = (Inr j, s') \<longrightarrow> j \<noteq> []"
    using create_document_id_nonempty by blast
  have acc: "accepts (validate_booking strict everything)"
    "accepts (validate_training_application strict everything)"
    "accepts (validate_contact_message strict everything)"
    by (simp_all add: validate_everything accepts_def)
  show ?thesis
    using write_endpoints_envelope
            [where V = strict and body = everything and cd = create_document and st = up
               and b = ?b and a = ?a and m = ?m and i = "''0''"
               and st' = "snd (create_document ''booking'' (Booking ?b) up)"]
          write_endpoints_envelope
            [where V = strict and body = everything and cd = create_document and st = up
               and b = ?b and a = ?a and m = ?m and i = "''0''"
               and st' = "snd (create_document ''trainingapplication''
                                 (TrainingApplication ?a) up)"]
          write_endpoints_envelope
            [where V = strict and body = everything and cd = create_document and st = up
               and b = ?b and a = ?a and m = ?m and i = "''0''"
               and st' = "snd (create_document ''contactmessage'' (ContactMessage ?m) up)"]
          write_endpoints_envelope
            [where V = strict and body = everything and cd = create_document and st = down
               and b = ?b and a = ?a and m = ?m and e = "''StoreUnavailable''"
               and st' = down]
          validate_everything ok create_document_down ids acc
    by simp
qed

section \<open>Properties of schema introspection\<close>

text \<open>
  C6. GET /api/schema has one entry for each of the eight collection names, in the order
  event, booking, trainingapplication, contactmessage, story, partner, resource, sitestat;
  each entry names its collection, and the fields it flags as required and as optional
  are the required and the optional fields of the data model of section 3.
\<close>

theorem schema_matches_data_model:
  "map (\<lambda>(k, e). (k, collection e, required_names e, optional_names e)) get_schema
     = map (\<lambda>(c, req, opt). (c, c, req, opt)) data_model"
  by code_simp

section \<open>Properties of the resources filter\<close>

text \<open>
  C7 as first worded gives the filter an entry for each parameter present in the request.
  With \<^verbatim>\<open>?type=\<close> the parameter is present, as the empty string, and the filter
  has no entry for it.
\<close>

theorem resources_query_counterexample:
  "resources_query (Some '''') None = []
   \<and> query_claimed (Some '''') None = [(''type'', JStr '''')]
   \<and> resources_query (Some '''') None \<noteq> query_claimed (Some '''') None"
  by (simp add: resources_query_def query_claimed_def truthy_def)

lemma matches_entry: "matches q d \<Longrightarrow> (k, v) \<in> set q \<Longrightarrow> d k = Some v"
  by (auto simp add: matches_def list_all_iff)

lemma get_documents_matches:
  "get_documents s c q limit = Inr docs \<Longrightarrow> d \<in> set docs \<Longrightarrow> matches q d"
  by (auto simp add: get_documents_def Let_def split: if_splits option.splits
        dest: in_set_takeD)

lemma get_documents_exact:
  "get_documents s c q limit = Inr docs \<Longrightarrow> d \<in> set docs \<Longrightarrow> (k, v) \<in> set q
   \<Longrightarrow> d k = Some v"
  using get_documents_matches matches_entry by blast

lemma pdf_in_query: "(''type'', JStr ''pdf'') \<in> set (resources_query (Some ''pdf'') l)"
  by (simp add: resources_query_def truthy_def Let_def)

text \<open>
  C7, as amended. GET /api/resources builds an exact-match filter with an entry for each
  of \<open>type\<close> and \<open>language\<close> that is present and not the empty string, and no other
  entry; it asks for 20 records when no limit is given; and, with an adapter that returns
  only documents that have, for every entry of the filter it is given, that value in that
  field, a request with \<^verbatim>\<open>type=pdf\<close> returns only items whose \<open>type\<close>
  field is \<^verbatim>\<open>"pdf"\<close>.
\<close>

theorem resources_filter:
  "resources_query t l
     = query_claimed (if t = Some [] then None else t) (if l = Some [] then None else l)
   \<and> list_resources gd None t l = list_resources gd (Some 20) t l
   \<and> ((\<forall>c q n docs d k v.
          gd c q n = Inr docs \<and> d \<in> set docs \<and> (k, v) \<in> set q \<longrightarrow> d k = Some v)
        \<and> list_resources gd limit (Some ''pdf'') l = Inr r
        \<longrightarrow> (\<forall>d \<in> set (items r). d ''type'' = Some (JStr ''pdf'')))"
proof -
  have q: "resources_query t l
     = query_claimed (if t = Some [] then None else t) (if l = Some [] then None else l)"
    by (auto simp add: resources_query_def query_claimed_def truthy_def
          split: option.splits)
  have d: "list_resources gd None t l = list_resources gd (Some 20) t l"
    by (simp add: list_resources_def)
  have p: "\<forall>d \<in> set (items r). d ''type'' = Some (JStr ''pdf'')"
    if exact: "\<forall>c q n docs d k v.
                 gd c q n = Inr docs \<and> d \<in> set docs \<and> (k, v) \<in> set q \<longrightarrow> d k = Some v"
      and res: "list_resources gd limit (Some ''pdf'') l = Inr r"
  proof (cases "gd ''resource'' (resources_query (Some ''pdf'') l)
                  (Some (limit_or 20 limit))")
    case (Inl e)
    with res have "r = degraded e"
      by (simp add: list_resources_def try_except_def limit_or_def Let_def)
    then show ?thesis by (simp add: degraded_def)
  next
    case (Inr docs)
    with res have "r = ok_items docs"
      by (simp add: list_resources_def try_except_def limit_or_def Let_def)
    then have "items r = docs" by (simp add: ok_items_def)
    with Inr exact pdf_in_query [of l] show ?thesis by blast
  qed
  from q d p show ?thesis by blast
qed

theorem resources_filter_witness:
  "list_resources (get_documents shelf) None (Some ''pdf'') None
     = Inr \<lparr>items = [handbook], error = None\<rparr>
   \<and> handbook ''type'' = Some (JStr ''pdf'')
   \<and> list_resources (get_documents shelf) None None None
     = Inr \<lparr>items = [clip, handbook], error = None\<rparr>"
proof -
  have a: "list_resources (get_documents shelf) None (Some ''pdf'') None
             = Inr \<lparr>items = [handbook], error = None\<rparr>"
    by (simp add: list_resources_def get_documents_def shelf_def resources_query_def
          truthy_def matches_def clip_def handbook_def try_except_def ok_items_def Let_def)
  have b: "list_resources (get_documents shelf) None None None
             = Inr \<lparr>items = [clip, handbook], error = None\<rparr>"
    by (simp add: list_resources_def get_documents_def shelf_def resources_query_def
          truthy_def matches_def try_except_def ok_items_def Let_def)
  have exact: "\<forall>c q n docs d k v.
      get_documents shelf c q n = Inr docs \<and> d \<in> set docs \<and> (k, v) \<in> set q
      \<longrightarrow> d k = Some v"
    using get_documents_exact by blast
  show ?thesis
    using resources_filter
            [where t = "Some ''pdf''" and l = None and gd = "get_documents shelf"
               and limit = None and r = "\<lparr>items = [handbook], error = None\<rparr>"]
          a b exact
    by simp
qed

section \<open>Properties of the connectivity diagnostic\<close>

text \<open>
  C8. GET /test returns normally in every state of the store. With no handle the status
  says so; a failure of the name lookup is caught by the outer handler and a failure of
  the collection listing by the inner one, and either is reported in the
  \<open>database\<close> status text with the first 80 characters of its message; the
  environment is read after the handlers and cannot raise.
\<close>

theorem test_database_always_answers:
  "\<exists>r. test_database env db = Inr r
     \<and> database r =
         (case db of
            None \<Rightarrow> warning_sign @ '' Available but not initialized''
          | Some d \<Rightarrow>
              (case name_attr d of
                 Inl e \<Rightarrow> cross_mark @ '' Error: '' @ take 80 e
               | Inr n \<Rightarrow>
                   (case list_collection_names d of
                      Inl e \<Rightarrow> warning_sign @ '' Connected but Error: '' @ take 80 e
                    | Inr names \<Rightarrow> check_mark @ '' Connected & Working'')))
     \<and> collections r =
         (case db of
            None \<Rightarrow> []
          | Some d \<Rightarrow>
              (case name_attr d of
                 Inl e \<Rightarrow> []
               | Inr n \<Rightarrow>
                   (case list_collection_names d of Inl e \<Rightarrow> [] | Inr names \<Rightarrow> names)))
     \<and> database_url r = Some (set_or_not env ''DATABASE_URL'')
     \<and> database_name r = Some (set_or_not env ''DATABASE_NAME'')"
  by (simp add: test_database_def test_database_try_def Let_def
        split: option.splits sum.splits)

end
